theory Spec2Isabelle
  imports Main "HOL-Library.Sublist"
begin

section \<open>The verification script \<open>verify_styles.py\<close>\<close>

text \<open>
  The repository consists of one Python function, \<open>run_verification\<close>, a straight line of
  calls into the Playwright browser-automation library, wrapped in one
  \<open>with sync_playwright()\<close> block. The embedding below keeps that shape: every statement of
  the source is one line of \<open>run_verification\<close>, every library call is an action that either
  returns or raises, and the \<open>with\<close> blocks are combinators that run their exit code on every
  way out of the body.

  What the library and the page under test do is not code of the repository. It is
  described by a \<open>world\<close> (which files exist, which elements the page has, when an element
  becomes visible, which calls break for an outside reason), and every theorem quantifies
  over all worlds.
\<close>

subsection \<open>Path arithmetic: \<open>os.path.dirname\<close> and \<open>os.path.join\<close> (POSIX)\<close>

text \<open>
  \<open>posixpath.dirname(p)\<close>: \<open>i = p.rfind('/') + 1; head = p[:i]\<close>; if \<open>head\<close> is not empty
  and not made of slashes only, its trailing slashes are stripped.
\<close>

definition rstrip_sep :: "string \<Rightarrow> string" where
  "rstrip_sep s = rev (dropWhile (\<lambda>c. c = CHR ''/'') (rev s))"

definition dirname :: "string \<Rightarrow> string" where
  "dirname p =
     (let head = rev (dropWhile (\<lambda>c. c \<noteq> CHR ''/'') (rev p)) in
      if head \<noteq> [] \<and> \<not> list_all (\<lambda>c. c = CHR ''/'') head then rstrip_sep head else head)"

text \<open>
  \<open>posixpath.join(a, *p)\<close>: a component that starts with a slash replaces the path built so
  far; otherwise it is appended, with a slash in between unless the path is empty or already
  ends with one.
\<close>

definition startswith_sep :: "string \<Rightarrow> bool" where
  "startswith_sep b = (case b of [] \<Rightarrow> False | c # _ \<Rightarrow> c = CHR ''/'')"

definition endswith_sep :: "string \<Rightarrow> bool" where
  "endswith_sep path = (case rev path of [] \<Rightarrow> False | c # _ \<Rightarrow> c = CHR ''/'')"

definition join_step :: "string \<Rightarrow> string \<Rightarrow> string" where
  "join_step path b =
     (if startswith_sep b then b
      else if path = [] \<or> endswith_sep path then path @ b
      else path @ ''/'' @ b)"

definition join :: "string \<Rightarrow> string list \<Rightarrow> string" where
  "join a p = foldl join_step a p"

subsection \<open>Events, the world, and the state of a run\<close>

text \<open>
  One event per statement of the source that does something: the library calls with the
  arguments the source passes, the assignments of the four path variables, the \<open>print\<close>,
  and the entry and exit of the \<open>sync_playwright\<close> scope. \<open>Screenshot\<close> carries the
  \<open>full_page\<close> keyword as the caller passed it (\<open>None\<close>: not passed).
\<close>

datatype event =
    PlaywrightStart
  | Launch bool
  | NewPage
  | Assign string string
  | Goto string
  | ExpectFileChooser
  | Click string
  | SetFiles string
  | ExpectVisible string nat
  | WaitForTimeout nat
  | Screenshot string "bool option"
  | BrowserClose
  | Print string
  | PlaywrightStop

datatype browser_state = NotLaunched | Running | Closed

datatype extent = Viewport | FullPage

text \<open>
  The world: \<open>fault e\<close> says that the call \<open>e\<close> raises for a reason outside the page (the
  driver is missing, the browser crashes, the disk is full); \<open>files\<close> are the regular files
  on disk; \<open>elements\<close> are the selectors that match an element of the loaded page;
  \<open>choosers\<close> are the selectors whose element opens a native file chooser when clicked;
  \<open>visible_after sel\<close> is the time in milliseconds after which the element of \<open>sel\<close> is
  visible (\<open>None\<close>: never).
\<close>

record world =
  fault :: "event \<Rightarrow> bool"
  files :: "string list"
  elements :: "string list"
  choosers :: "string list"
  visible_after :: "string \<Rightarrow> nat option"

text \<open>
  The state a run changes: the \<open>trace\<close> of events in program order and, for each of
  them, the state in which it found the browser process (\<open>browser_seen\<close>, as long as the
  trace); the browser process (with the number of processes started and ended), the page
  (its location, whether a file chooser is open, the files uploaded), the files \<open>written\<close>
  by the run and the lines on the console.
\<close>

record state =
  trace :: "event list"
  browser_seen :: "browser_state list"
  browser :: browser_state
  browsers_started :: nat
  browsers_ended :: nat
  location :: "string option"
  chooser_open :: bool
  uploaded :: "string list"
  written :: "(string \<times> extent) list"
  stdout :: "string list"

definition initial :: state where
  "initial = \<lparr>trace = [], browser_seen = [], browser = NotLaunched,
     browsers_started = 0, browsers_ended = 0,
     location = None, chooser_open = False, uploaded = [], written = [], stdout = []\<rparr>"

text \<open>
  An action returns a value or raises; the exception is identified by the call that raised
  it (its Python class belongs to the library). The state is returned on both ways out.
\<close>

type_synonym 'a action = "state \<Rightarrow> (event + 'a) \<times> state"

definition emit :: "event \<Rightarrow> state \<Rightarrow> state" where
  "emit e s = s\<lparr>trace := trace s @ [e], browser_seen := browser_seen s @ [browser s]\<rparr>"

definition and_then :: "'a action \<Rightarrow> ('a \<Rightarrow> 'b action) \<Rightarrow> 'b action" where
  "and_then m k s = (case m s of (Inl e, s') \<Rightarrow> (Inl e, s') | (Inr x, s') \<Rightarrow> k x s')"

text \<open>
  A library call \<open>e\<close>: it is recorded, then it raises if the world breaks it or if its
  precondition \<open>ok\<close> fails, and otherwise has its \<open>effect\<close> and returns.
\<close>

definition call :: "world \<Rightarrow> event \<Rightarrow> bool \<Rightarrow> (state \<Rightarrow> state) \<Rightarrow> unit action" where
  "call w e ok effect s =
     (let s' = emit e s in
      if fault w e \<or> \<not> ok then (Inl e, s') else (Inr (), effect s'))"

subsection \<open>The library calls the script makes\<close>

text \<open>\<open>p.chromium.launch(headless=...)\<close> starts one browser process.\<close>

definition launch :: "world \<Rightarrow> bool \<Rightarrow> unit action" where
  "launch w headless =
     call w (Launch headless) True
       (\<lambda>s. s\<lparr>browser := Running, browsers_started := browsers_started s + 1\<rparr>)"

definition new_page :: "world \<Rightarrow> unit action" where
  "new_page w = call w NewPage True (\<lambda>s. s)"

text \<open>A local variable is bound to a string; the binding is recorded.\<close>

definition assign :: "string \<Rightarrow> string \<Rightarrow> string action" where
  "assign name v s = (Inr v, emit (Assign name v) s)"

text \<open>
  \<open>page.goto(url)\<close>: a \<open>file://\<close> URL loads when the file it names exists; otherwise the
  navigation raises.
\<close>

definition url_loads :: "world \<Rightarrow> string \<Rightarrow> bool" where
  "url_loads w url = (url \<in> set (map (\<lambda>p. ''file://'' @ p) (files w)))"

definition goto :: "world \<Rightarrow> string \<Rightarrow> unit action" where
  "goto w url = call w (Goto url) (url_loads w url) (\<lambda>s. s\<lparr>location := Some url\<rparr>)"

text \<open>
  \<open>page.locator(sel).click()\<close> raises (after the library's default timeout) when no element
  matches; a click on a file input opens the chooser.
\<close>

definition click :: "world \<Rightarrow> string \<Rightarrow> unit action" where
  "click w sel =
     call w (Click sel) (sel \<in> set (elements w))
       (\<lambda>s. s\<lparr>chooser_open := (sel \<in> set (choosers w))\<rparr>)"

text \<open>
  \<open>with page.expect_file_chooser() as fc_info: body\<close> followed by \<open>fc_info.value\<close>: the
  body runs; an exception of the body propagates; on normal exit the block waits for the
  chooser and raises if none has opened.
\<close>

definition expect_file_chooser :: "world \<Rightarrow> unit action \<Rightarrow> unit action" where
  "expect_file_chooser w body s =
     (let s1 = emit ExpectFileChooser s in
      if fault w ExpectFileChooser then (Inl ExpectFileChooser, s1)
      else (case body s1 of
              (Inl e, s2) \<Rightarrow> (Inl e, s2)
            | (Inr _, s2) \<Rightarrow>
                if chooser_open s2 then (Inr (), s2) else (Inl ExpectFileChooser, s2)))"

text \<open>\<open>file_chooser.set_files(path)\<close> raises when \<open>path\<close> is not a file on disk.\<close>

definition set_files :: "world \<Rightarrow> string \<Rightarrow> unit action" where
  "set_files w path =
     call w (SetFiles path) (path \<in> set (files w))
       (\<lambda>s. s\<lparr>chooser_open := False, uploaded := uploaded s @ [path]\<rparr>)"

text \<open>
  \<open>expect(page.locator(sel)).to_be_visible(timeout=ms)\<close> raises unless the element is
  visible within \<open>ms\<close> milliseconds.
\<close>

definition visible_within :: "world \<Rightarrow> string \<Rightarrow> nat \<Rightarrow> bool" where
  "visible_within w sel ms = (case visible_after w sel of None \<Rightarrow> False | Some t \<Rightarrow> t \<le> ms)"

definition expect_to_be_visible :: "world \<Rightarrow> string \<Rightarrow> nat \<Rightarrow> unit action" where
  "expect_to_be_visible w sel ms = call w (ExpectVisible sel ms) (visible_within w sel ms) (\<lambda>s. s)"

definition wait_for_timeout :: "world \<Rightarrow> nat \<Rightarrow> unit action" where
  "wait_for_timeout w ms = call w (WaitForTimeout ms) True (\<lambda>s. s)"

text \<open>
  \<open>page.screenshot(path=..., full_page=...)\<close> writes one image file. The library's default
  for \<open>full_page\<close> is \<open>False\<close>: the image is the visible viewport unless the caller asks
  for the whole scrollable page.
\<close>

definition captured_extent :: "bool option \<Rightarrow> extent" where
  "captured_extent full_page =
     (case full_page of None \<Rightarrow> Viewport | Some b \<Rightarrow> if b then FullPage else Viewport)"

definition screenshot :: "world \<Rightarrow> string \<Rightarrow> bool option \<Rightarrow> unit action" where
  "screenshot w path full_page =
     call w (Screenshot path full_page) True
       (\<lambda>s. s\<lparr>written := written s @ [(path, captured_extent full_page)]\<rparr>)"

text \<open>\<open>browser.close()\<close> ends the browser process if it is running.\<close>

definition end_browser :: "state \<Rightarrow> state" where
  "end_browser s =
     (if browser s = Running
      then s\<lparr>browser := Closed, browsers_ended := browsers_ended s + 1\<rparr> else s)"

definition browser_close :: "world \<Rightarrow> unit action" where
  "browser_close w = call w BrowserClose True end_browser"

text \<open>
  \<open>print(msg)\<close> writes one line to the console. Like every call it can raise (the
  console may be closed), and a \<open>print\<close> that raises has written nothing.
\<close>

definition print :: "world \<Rightarrow> string \<Rightarrow> unit action" where
  "print w msg = call w (Print msg) True (\<lambda>s. s\<lparr>stdout := stdout s @ [msg]\<rparr>)"

text \<open>
  \<open>with sync_playwright() as p: body\<close>. If starting the driver raises, neither the body nor
  the exit runs. Otherwise the exit runs on every way out of the body, stops the driver,
  which ends a browser process that is still running, and lets an exception of the body
  propagate. The exit itself is cleanup and is taken not to raise.
\<close>

definition playwright_stop :: "state \<Rightarrow> state" where
  "playwright_stop s = end_browser (emit PlaywrightStop s)"

definition with_sync_playwright :: "world \<Rightarrow> unit action \<Rightarrow> unit action" where
  "with_sync_playwright w body s =
     (let s1 = emit PlaywrightStart s in
      if fault w PlaywrightStart then (Inl PlaywrightStart, s1)
      else (case body s1 of (r, s2) \<Rightarrow> (r, playwright_stop s2)))"

subsection \<open>\<open>run_verification\<close>\<close>

text \<open>
  The function, statement by statement. \<open>file\<close> is the value of
  \<open>os.path.abspath(__file__)\<close>, the absolute path of the script. A locator is resolved
  only when it is used, so \<open>page.locator(sel)\<close> appears as the selector of the call made
  on it, and \<open>fc_info.value\<close> is what the file-chooser block returns. Nothing in the
  function catches an exception: the first call that raises ends the body.
\<close>

definition run_verification :: "world \<Rightarrow> string \<Rightarrow> unit action" where
  "run_verification w file =
     with_sync_playwright w
      (and_then (launch w True) (\<lambda>browser.
       and_then (new_page w) (\<lambda>page.
       and_then (assign ''base_dir'' (dirname (dirname (dirname file)))) (\<lambda>base_dir.
       and_then (assign ''index_path'' (join base_dir [''index.html''])) (\<lambda>index_path.
       and_then (goto w (''file://'' @ index_path)) (\<lambda>_.
       and_then (assign ''pptx_path'' (join base_dir [''jules-scratch'', ''test.pptx''])) (\<lambda>pptx_path.
       and_then (expect_file_chooser w (click w ''#pptx-file'')) (\<lambda>file_chooser.
       and_then (set_files w pptx_path) (\<lambda>_.
       and_then (expect_to_be_visible w ''#slide-1'' 10000) (\<lambda>_.
       and_then (wait_for_timeout w 1000) (\<lambda>_.
       and_then (assign ''screenshot_path''
                   (join base_dir [''jules-scratch'', ''verification'', ''verification.png''])) (\<lambda>screenshot_path.
       and_then (screenshot w screenshot_path None) (\<lambda>_.
       and_then (browser_close w) (\<lambda>_.
       print w (''Screenshot saved to '' @ screenshot_path)))))))))))))))"

definition run :: "world \<Rightarrow> string \<Rightarrow> (event + unit) \<times> state" where
  "run w file = run_verification w file initial"

subsection \<open>The values of the path variables and the order of the statements\<close>

text \<open>
  The four path variables of \<open>run_verification\<close> as functions of the script's location, and
  the statements of the function in source order (the exit of the \<open>sync_playwright\<close> scope
  left out: where it comes depends on how far the body gets).
\<close>

definition base_dir_of :: "string \<Rightarrow> string" where
  "base_dir_of file = dirname (dirname (dirname file))"

definition index_path_of :: "string \<Rightarrow> string" where
  "index_path_of file = join (base_dir_of file) [''index.html'']"

definition pptx_path_of :: "string \<Rightarrow> string" where
  "pptx_path_of file = join (base_dir_of file) [''jules-scratch'', ''test.pptx'']"

definition screenshot_path_of :: "string \<Rightarrow> string" where
  "screenshot_path_of file =
     join (base_dir_of file) [''jules-scratch'', ''verification'', ''verification.png'']"

definition path_assignments :: "string \<Rightarrow> event list" where
  "path_assignments file =
     [Assign ''base_dir'' (base_dir_of file),
      Assign ''index_path'' (index_path_of file),
      Assign ''pptx_path'' (pptx_path_of file),
      Assign ''screenshot_path'' (screenshot_path_of file)]"

definition script_events :: "string \<Rightarrow> event list" where
  "script_events file =
     [PlaywrightStart, Launch True, NewPage,
      Assign ''base_dir'' (base_dir_of file),
      Assign ''index_path'' (index_path_of file),
      Goto (''file://'' @ index_path_of file),
      Assign ''pptx_path'' (pptx_path_of file),
      ExpectFileChooser, Click ''#pptx-file'', SetFiles (pptx_path_of file),
      ExpectVisible ''#slide-1'' 10000, WaitForTimeout 1000,
      Assign ''screenshot_path'' (screenshot_path_of file),
      Screenshot (screenshot_path_of file) None,
      BrowserClose,
      Print (''Screenshot saved to '' @ screenshot_path_of file)]"

fun is_assign :: "event \<Rightarrow> bool" where
  "is_assign (Assign _ _) = True"
| "is_assign _ = False"

subsection \<open>Example worlds\<close>

text \<open>
  A repository checked out at \<open>/repo\<close>, with the page and the sample file in place and a
  page that shows the first slide 1.2 seconds after the upload; and the same world with the
  slide never shown, the upload control missing, the page missing, the sample file missing,
  the console closed.
\<close>

definition script0 :: string where
  "script0 = ''/repo/jules-scratch/verification/verify_styles.py''"

definition w_ok :: world where
  "w_ok = \<lparr>fault = (\<lambda>_. False),
     files = [''/repo/index.html'', ''/repo/jules-scratch/test.pptx''],
     elements = [''#pptx-file''], choosers = [''#pptx-file''],
     visible_after = (\<lambda>sel. if sel = ''#slide-1'' then Some 1200 else None)\<rparr>"

definition w_hidden :: world where
  "w_hidden = w_ok\<lparr>visible_after := (\<lambda>_. None)\<rparr>"

definition w_no_trigger :: world where
  "w_no_trigger = w_ok\<lparr>elements := []\<rparr>"

definition w_no_index :: world where
  "w_no_index = w_ok\<lparr>files := [''/repo/jules-scratch/test.pptx'']\<rparr>"

definition w_no_pptx :: world where
  "w_no_pptx = w_ok\<lparr>files := [''/repo/index.html'']\<rparr>"


section \<open>Properties\<close>

subsection \<open>Stepping through the body\<close>

text \<open>
  How one statement of the body acts on the state: a library call either stops the body or
  hands the changed state to the rest, an assignment always continues.
\<close>

lemma and_then_call:
  "and_then (call w e ok eff) k s =
     (if fault w e \<or> \<not> ok then (Inl e, emit e s) else k () (eff (emit e s)))"
  by (simp add: and_then_def call_def)

lemma and_then_assign: "and_then (assign n v) k s = k v (emit (Assign n v) s)"
  by (simp add: and_then_def assign_def)

lemma and_then_chooser:
  "and_then (expect_file_chooser w (click w sel)) k s =
     (if fault w ExpectFileChooser then (Inl ExpectFileChooser, emit ExpectFileChooser s)
      else if fault w (Click sel) \<or> sel \<notin> set (elements w)
        then (Inl (Click sel), emit (Click sel) (emit ExpectFileChooser s))
      else if sel \<in> set (choosers w)
        then k () ((emit (Click sel) (emit ExpectFileChooser s))\<lparr>chooser_open := True\<rparr>)
      else (Inl ExpectFileChooser,
            (emit (Click sel) (emit ExpectFileChooser s))\<lparr>chooser_open := False\<rparr>))"
  by (simp add: and_then_def expect_file_chooser_def click_def call_def emit_def)

lemma url_loads_file: "url_loads w (''file://'' @ p) = (p \<in> set (files w))"
  by (auto simp add: url_loads_def)

lemmas run_simps = run_def run_verification_def with_sync_playwright_def
  launch_def new_page_def goto_def set_files_def expect_to_be_visible_def
  wait_for_timeout_def screenshot_def browser_close_def print_def
  and_then_call and_then_assign and_then_chooser call_def
  playwright_stop_def end_browser_def emit_def initial_def Let_def captured_extent_def

lemmas path_defs = base_dir_of_def index_path_of_def pptx_path_of_def screenshot_path_of_def

lemma script0_paths:
  "dirname (dirname (dirname script0)) = ''/repo''"
  "join ''/repo'' [''index.html''] = ''/repo/index.html''"
  "join ''/repo'' [''jules-scratch'', ''test.pptx''] = ''/repo/jules-scratch/test.pptx''"
  "join ''/repo'' [''jules-scratch'', ''verification'', ''verification.png''] =
     ''/repo/jules-scratch/verification/verification.png''"
  by (simp_all add: script0_def dirname_def rstrip_sep_def join_def join_step_def
        startswith_sep_def endswith_sep_def)

text \<open>
  The ways a run can end: one case for each call that can raise, with the calls before it
  having returned, and one for success. Each case gives the result and the final state;
  the trace of a failing run is the statements up to the call that raised, followed by the
  exit of the \<open>sync_playwright\<close> scope.
\<close>

lemma run_cases [case_names start_fails launch_fails new_page_fails goto_fails expect_chooser_fails click_fails no_chooser set_files_fails not_visible settle_fails screenshot_fails close_fails print_fails succeeds]:
  obtains (start_fails)
      "fault w PlaywrightStart"
      "run w file =
         (Inl (PlaywrightStart),
          \<lparr>trace = [PlaywrightStart],
            browser_seen =
              [NotLaunched],
            browser = NotLaunched, browsers_started = 0, browsers_ended = 0,
            location = None, chooser_open = False,
            uploaded = [],
            written = [],
            stdout = []\<rparr>)"
  | (launch_fails)
      "\<not> fault w PlaywrightStart"
      "fault w (Launch True)"
      "run w file =
         (Inl (Launch True),
          \<lparr>trace = take 2 (script_events file) @ [PlaywrightStop],
            browser_seen =
              [NotLaunched, NotLaunched, NotLaunched],
            browser = NotLaunched, browsers_started = 0, browsers_ended = 0,
            location = None, chooser_open = False,
            uploaded = [],
            written = [],
            stdout = []\<rparr>)"
  | (new_page_fails)
      "\<not> fault w PlaywrightStart"
      "\<not> fault w (Launch True)"
      "fault w NewPage"
      "run w file =
         (Inl (NewPage),
          \<lparr>trace = take 3 (script_events file) @ [PlaywrightStop],
            browser_seen =
              [NotLaunched, NotLaunched, Running, Running],
            browser = Closed, browsers_started = 1, browsers_ended = 1,
            location = None, chooser_open = False,
            uploaded = [],
            written = [],
            stdout = []\<rparr>)"
  | (goto_fails)
      "\<not> fault w PlaywrightStart"
      "\<not> fault w (Launch True)"
      "\<not> fault w NewPage"
      "fault w (Goto (''file://'' @ index_path_of file)) \<or> \<not> url_loads w (''file://'' @ index_path_of file)"
      "run w file =
         (Inl (Goto (''file://'' @ index_path_of file)),
          \<lparr>trace = take 6 (script_events file) @ [PlaywrightStop],
            browser_seen =
              [NotLaunched, NotLaunched, Running, Running, Running, Running,
               Running],
            browser = Closed, browsers_started = 1, browsers_ended = 1,
            location = None, chooser_open = False,
            uploaded = [],
            written = [],
            stdout = []\<rparr>)"
  | (expect_chooser_fails)
      "\<not> fault w PlaywrightStart"
      "\<not> fault w (Launch True)"
      "\<not> fault w NewPage"
      "\<not> fault w (Goto (''file://'' @ index_path_of file))"
      "url_loads w (''file://'' @ index_path_of file)"
      "fault w ExpectFileChooser"
      "run w file =
         (Inl (ExpectFileChooser),
          \<lparr>trace = take 8 (script_events file) @ [PlaywrightStop],
            browser_seen =
              [NotLaunched, NotLaunched, Running, Running, Running, Running,
               Running, Running, Running],
            browser = Closed, browsers_started = 1, browsers_ended = 1,
            location = Some (''file://'' @ index_path_of file), chooser_open = False,
            uploaded = [],
            written = [],
            stdout = []\<rparr>)"
  | (click_fails)
      "\<not> fault w PlaywrightStart"
      "\<not> fault w (Launch True)"
      "\<not> fault w NewPage"
      "\<not> fault w (Goto (''file://'' @ index_path_of file))"
      "url_loads w (''file://'' @ index_path_of file)"
      "\<not> fault w ExpectFileChooser"
      "fault w (Click ''#pptx-file'') \<or> ''#pptx-file'' \<notin> set (elements w)"
      "run w file =
         (Inl (Click ''#pptx-file''),
          \<lparr>trace = take 9 (script_events file) @ [PlaywrightStop],
            browser_seen =
              [NotLaunched, NotLaunched, Running, Running, Running, Running,
               Running, Running, Running, Running],
            browser = Closed, browsers_started = 1, browsers_ended = 1,
            location = Some (''file://'' @ index_path_of file), chooser_open = False,
            uploaded = [],
            written = [],
            stdout = []\<rparr>)"
  | (no_chooser)
      "\<not> fault w PlaywrightStart"
      "\<not> fault w (Launch True)"
      "\<not> fault w NewPage"
      "\<not> fault w (Goto (''file://'' @ index_path_of file))"
      "url_loads w (''file://'' @ index_path_of file)"
      "\<not> fault w ExpectFileChooser"
      "\<not> fault w (Click ''#pptx-file'')"
      "''#pptx-file'' \<in> set (elements w)"
      "''#pptx-file'' \<notin> set (choosers w)"
      "run w file =
         (Inl (ExpectFileChooser),
          \<lparr>trace = take 9 (script_events file) @ [PlaywrightStop],
            browser_seen =
              [NotLaunched, NotLaunched, Running, Running, Running, Running,
               Running, Running, Running, Running],
            browser = Closed, browsers_started = 1, browsers_ended = 1,
            location = Some (''file://'' @ index_path_of file), chooser_open = False,
            uploaded = [],
            written = [],
            stdout = []\<rparr>)"
  | (set_files_fails)
      "\<not> fault w PlaywrightStart"
      "\<not> fault w (Launch True)"
      "\<not> fault w NewPage"
      "\<not> fault w (Goto (''file://'' @ index_path_of file))"
      "url_loads w (''file://'' @ index_path_of file)"
      "\<not> fault w ExpectFileChooser"
      "\<not> fault w (Click ''#pptx-file'')"
      "''#pptx-file'' \<in> set (elements w)"
      "''#pptx-file'' \<in> set (choosers w)"
      "fault w (SetFiles (pptx_path_of file)) \<or> pptx_path_of file \<notin> set (files w)"
      "run w file =
         (Inl (SetFiles (pptx_path_of file)),
          \<lparr>trace = take 10 (script_events file) @ [PlaywrightStop],
            browser_seen =
              [NotLaunched, NotLaunched, Running, Running, Running, Running,
               Running, Running, Running, Running, Running],
            browser = Closed, browsers_started = 1, browsers_ended = 1,
            location = Some (''file://'' @ index_path_of file), chooser_open = True,
            uploaded = [],
            written = [],
            stdout = []\<rparr>)"
  | (not_visible)
      "\<not> fault w PlaywrightStart"
      "\<not> fault w (Launch True)"
      "\<not> fault w NewPage"
      "\<not> fault w (Goto (''file://'' @ index_path_of file))"
      "url_loads w (''file://'' @ index_path_of file)"
      "\<not> fault w ExpectFileChooser"
      "\<not> fault w (Click ''#pptx-file'')"
      "''#pptx-file'' \<in> set (elements w)"
      "''#pptx-file'' \<in> set (choosers w)"
      "\<not> fault w (SetFiles (pptx_path_of file))"
      "pptx_path_of file \<in> set (files w)"
      "fault w (ExpectVisible ''#slide-1'' 10000) \<or> \<not> visible_within w ''#slide-1'' 10000"
      "run w file =
         (Inl (ExpectVisible ''#slide-1'' 10000),
          \<lparr>trace = take 11 (script_events file) @ [PlaywrightStop],
            browser_seen =
              [NotLaunched, NotLaunched, Running, Running, Running, Running,
               Running, Running, Running, Running, Running, Running],
            browser = Closed, browsers_started = 1, browsers_ended = 1,
            location = Some (''file://'' @ index_path_of file), chooser_open = False,
            uploaded = [pptx_path_of file],
            written = [],
            stdout = []\<rparr>)"
  | (settle_fails)
      "\<not> fault w PlaywrightStart"
      "\<not> fault w (Launch True)"
      "\<not> fault w NewPage"
      "\<not> fault w (Goto (''file://'' @ index_path_of file))"
      "url_loads w (''file://'' @ index_path_of file)"
      "\<not> fault w ExpectFileChooser"
      "\<not> fault w (Click ''#pptx-file'')"
      "''#pptx-file'' \<in> set (elements w)"
      "''#pptx-file'' \<in> set (choosers w)"
      "\<not> fault w (SetFiles (pptx_path_of file))"
      "pptx_path_of file \<in> set (files w)"
      "\<not> fault w (ExpectVisible ''#slide-1'' 10000)"
      "visible_within w ''#slide-1'' 10000"
      "fault w (WaitForTimeout 1000)"
      "run w file =
         (Inl (WaitForTimeout 1000),
          \<lparr>trace = take 12 (script_events file) @ [PlaywrightStop],
            browser_seen =
              [NotLaunched, NotLaunched, Running, Running, Running, Running,
               Running, Running, Running, Running, Running, Running,
               Running],
            browser = Closed, browsers_started = 1, browsers_ended = 1,
            location = Some (''file://'' @ index_path_of file), chooser_open = False,
            uploaded = [pptx_path_of file],
            written = [],
            stdout = []\<rparr>)"
  | (screenshot_fails)
      "\<not> fault w PlaywrightStart"
      "\<not> fault w (Launch True)"
      "\<not> fault w NewPage"
      "\<not> fault w (Goto (''file://'' @ index_path_of file))"
      "url_loads w (''file://'' @ index_path_of file)"
      "\<not> fault w ExpectFileChooser"
      "\<not> fault w (Click ''#pptx-file'')"
      "''#pptx-file'' \<in> set (elements w)"
      "''#pptx-file'' \<in> set (choosers w)"
      "\<not> fault w (SetFiles (pptx_path_of file))"
      "pptx_path_of file \<in> set (files w)"
      "\<not> fault w (ExpectVisible ''#slide-1'' 10000)"
      "visible_within w ''#slide-1'' 10000"
      "\<not> fault w (WaitForTimeout 1000)"
      "fault w (Screenshot (screenshot_path_of file) None)"
      "run w file =
         (Inl (Screenshot (screenshot_path_of file) None),
          \<lparr>trace = take 14 (script_events file) @ [PlaywrightStop],
            browser_seen =
              [NotLaunched, NotLaunched, Running, Running, Running, Running,
               Running, Running, Running, Running, Running, Running,
               Running, Running, Running],
            browser = Closed, browsers_started = 1, browsers_ended = 1,
            location = Some (''file://'' @ index_path_of file), chooser_open = False,
            uploaded = [pptx_path_of file],
            written = [],
            stdout = []\<rparr>)"
  | (close_fails)
      "\<not> fault w PlaywrightStart"
      "\<not> fault w (Launch True)"
      "\<not> fault w NewPage"
      "\<not> fault w (Goto (''file://'' @ index_path_of file))"
      "url_loads w (''file://'' @ index_path_of file)"
      "\<not> fault w ExpectFileChooser"
      "\<not> fault w (Click ''#pptx-file'')"
      "''#pptx-file'' \<in> set (elements w)"
      "''#pptx-file'' \<in> set (choosers w)"
      "\<not> fault w (SetFiles (pptx_path_of file))"
      "pptx_path_of file \<in> set (files w)"
      "\<not> fault w (ExpectVisible ''#slide-1'' 10000)"
      "visible_within w ''#slide-1'' 10000"
      "\<not> fault w (WaitForTimeout 1000)"
      "\<not> fault w (Screenshot (screenshot_path_of file) None)"
      "fault w BrowserClose"
      "run w file =
         (Inl (BrowserClose),
          \<lparr>trace = take 15 (script_events file) @ [PlaywrightStop],
            browser_seen =
              [NotLaunched, NotLaunched, Running, Running, Running, Running,
               Running, Running, Running, Running, Running, Running,
               Running, Running, Running, Running],
            browser = Closed, browsers_started = 1, browsers_ended = 1,
            location = Some (''file://'' @ index_path_of file), chooser_open = False,
            uploaded = [pptx_path_of file],
            written = [(screenshot_path_of file, Viewport)],
            stdout = []\<rparr>)"
  | (print_fails)
      "\<not> fault w PlaywrightStart"
      "\<not> fault w (Launch True)"
      "\<not> fault w NewPage"
      "\<not> fault w (Goto (''file://'' @ index_path_of file))"
      "url_loads w (''file://'' @ index_path_of file)"
      "\<not> fault w ExpectFileChooser"
      "\<not> fault w (Click ''#pptx-file'')"
      "''#pptx-file'' \<in> set (elements w)"
      "''#pptx-file'' \<in> set (choosers w)"
      "\<not> fault w (SetFiles (pptx_path_of file))"
      "pptx_path_of file \<in> set (files w)"
      "\<not> fault w (ExpectVisible ''#slide-1'' 10000)"
      "visible_within w ''#slide-1'' 10000"
      "\<not> fault w (WaitForTimeout 1000)"
      "\<not> fault w (Screenshot (screenshot_path_of file) None)"
      "\<not> fault w BrowserClose"
      "fault w (Print (''Screenshot saved to '' @ screenshot_path_of file))"
      "run w file =
         (Inl (Print (''Screenshot saved to '' @ screenshot_path_of file)),
          \<lparr>trace = script_events file @ [PlaywrightStop],
            browser_seen =
              [NotLaunched, NotLaunched, Running, Running, Running, Running,
               Running, Running, Running, Running, Running, Running,
               Running, Running, Running, Closed, Closed],
            browser = Closed, browsers_started = 1, browsers_ended = 1,
            location = Some (''file://'' @ index_path_of file), chooser_open = False,
            uploaded = [pptx_path_of file],
            written = [(screenshot_path_of file, Viewport)],
            stdout = []\<rparr>)"
  | (succeeds)
      "\<not> fault w PlaywrightStart"
      "\<not> fault w (Launch True)"
      "\<not> fault w NewPage"
      "\<not> fault w (Goto (''file://'' @ index_path_of file))"
      "url_loads w (''file://'' @ index_path_of file)"
      "\<not> fault w ExpectFileChooser"
      "\<not> fault w (Click ''#pptx-file'')"
      "''#pptx-file'' \<in> set (elements w)"
      "''#pptx-file'' \<in> set (choosers w)"
      "\<not> fault w (SetFiles (pptx_path_of file))"
      "pptx_path_of file \<in> set (files w)"
      "\<not> fault w (ExpectVisible ''#slide-1'' 10000)"
      "visible_within w ''#slide-1'' 10000"
      "\<not> fault w (WaitForTimeout 1000)"
      "\<not> fault w (Screenshot (screenshot_path_of file) None)"
      "\<not> fault w BrowserClose"
      "\<not> fault w (Print (''Screenshot saved to '' @ screenshot_path_of file))"
      "run w file =
         (Inr (),
          \<lparr>trace = script_events file @ [PlaywrightStop],
            browser_seen =
              [NotLaunched, NotLaunched, Running, Running, Running, Running,
               Running, Running, Running, Running, Running, Running,
               Running, Running, Running, Closed, Closed],
            browser = Closed, browsers_started = 1, browsers_ended = 1,
            location = Some (''file://'' @ index_path_of file), chooser_open = False,
            uploaded = [pptx_path_of file],
            written = [(screenshot_path_of file, Viewport)],
            stdout = [''Screenshot saved to '' @ screenshot_path_of file]\<rparr>)"
proof -
  consider (c1) "fault w PlaywrightStart"
    | (c2) "\<not> fault w PlaywrightStart" "fault w (Launch True)"
    | (c3) "\<not> fault w PlaywrightStart" "\<not> fault w (Launch True)" "fault w NewPage"
    | (c4) "\<not> fault w PlaywrightStart" "\<not> fault w (Launch True)" "\<not> fault w NewPage" "fault w (Goto (''file://'' @ index_path_of file)) \<or> \<not> url_loads w (''file://'' @ index_path_of file)"
    | (c5) "\<not> fault w PlaywrightStart" "\<not> fault w (Launch True)" "\<not> fault w NewPage" "\<not> fault w (Goto (''file://'' @ index_path_of file))" "url_loads w (''file://'' @ index_path_of file)" "fault w ExpectFileChooser"
    | (c6) "\<not> fault w PlaywrightStart" "\<not> fault w (Launch True)" "\<not> fault w NewPage" "\<not> fault w (Goto (''file://'' @ index_path_of file))" "url_loads w (''file://'' @ index_path_of file)" "\<not> fault w ExpectFileChooser" "fault w (Click ''#pptx-file'') \<or> ''#pptx-file'' \<notin> set (elements w)"
    | (c7) "\<not> fault w PlaywrightStart" "\<not> fault w (Launch True)" "\<not> fault w NewPage" "\<not> fault w (Goto (''file://'' @ index_path_of file))" "url_loads w (''file://'' @ index_path_of file)" "\<not> fault w ExpectFileChooser" "\<not> fault w (Click ''#pptx-file'')" "''#pptx-file'' \<in> set (elements w)" "''#pptx-file'' \<notin> set (choosers w)"
    | (c8) "\<not> fault w PlaywrightStart" "\<not> fault w (Launch True)" "\<not> fault w NewPage" "\<not> fault w (Goto (''file://'' @ index_path_of file))" "url_loads w (''file://'' @ index_path_of file)" "\<not> fault w ExpectFileChooser" "\<not> fault w (Click ''#pptx-file'')" "''#pptx-file'' \<in> set (elements w)" "''#pptx-file'' \<in> set (choosers w)" "fault w (SetFiles (pptx_path_of file)) \<or> pptx_path_of file \<notin> set (files w)"
    | (c9) "\<not> fault w PlaywrightStart" "\<not> fault w (Launch True)" "\<not> fault w NewPage" "\<not> fault w (Goto (''file://'' @ index_path_of file))" "url_loads w (''file://'' @ index_path_of file)" "\<not> fault w ExpectFileChooser" "\<not> fault w (Click ''#pptx-file'')" "''#pptx-file'' \<in> set (elements w)" "''#pptx-file'' \<in> set (choosers w)" "\<not> fault w (SetFiles (pptx_path_of file))" "pptx_path_of file \<in> set (files w)" "fault w (ExpectVisible ''#slide-1'' 10000) \<or> \<not> visible_within w ''#slide-1'' 10000"
    | (c10) "\<not> fault w PlaywrightStart" "\<not> fault w (Launch True)" "\<not> fault w NewPage" "\<not> fault w (Goto (''file://'' @ index_path_of file))" "url_loads w (''file://'' @ index_path_of file)" "\<not> fault w ExpectFileChooser" "\<not> fault w (Click ''#pptx-file'')" "''#pptx-file'' \<in> set (elements w)" "''#pptx-file'' \<in> set (choosers w)" "\<not> fault w (SetFiles (pptx_path_of file))" "pptx_path_of file \<in> set (files w)" "\<not> fault w (ExpectVisible ''#slide-1'' 10000)" "visible_within w ''#slide-1'' 10000" "fault w (WaitForTimeout 1000)"
    | (c11) "\<not> fault w PlaywrightStart" "\<not> fault w (Launch True)" "\<not> fault w NewPage" "\<not> fault w (Goto (''file://'' @ index_path_of file))" "url_loads w (''file://'' @ index_path_of file)" "\<not> fault w ExpectFileChooser" "\<not> fault w (Click ''#pptx-file'')" "''#pptx-file'' \<in> set (elements w)" "''#pptx-file'' \<in> set (choosers w)" "\<not> fault w (SetFiles (pptx_path_of file))" "pptx_path_of file \<in> set (files w)" "\<not> fault w (ExpectVisible ''#slide-1'' 10000)" "visible_within w ''#slide-1'' 10000" "\<not> fault w (WaitForTimeout 1000)" "fault w (Screenshot (screenshot_path_of file) None)"
    | (c12) "\<not> fault w PlaywrightStart" "\<not> fault w (Launch True)" "\<not> fault w NewPage" "\<not> fault w (Goto (''file://'' @ index_path_of file))" "url_loads w (''file://'' @ index_path_of file)" "\<not> fault w ExpectFileChooser" "\<not> fault w (Click ''#pptx-file'')" "''#pptx-file'' \<in> set (elements w)" "''#pptx-file'' \<in> set (choosers w)" "\<not> fault w (SetFiles (pptx_path_of file))" "pptx_path_of file \<in> set (files w)" "\<not> fault w (ExpectVisible ''#slide-1'' 10000)" "visible_within w ''#slide-1'' 10000" "\<not> fault w (WaitForTimeout 1000)" "\<not> fault w (Screenshot (screenshot_path_of file) None)" "fault w BrowserClose"
    | (c13) "\<not> fault w PlaywrightStart" "\<not> fault w (Launch True)" "\<not> fault w NewPage" "\<not> fault w (Goto (''file://'' @ index_path_of file))" "url_loads w (''file://'' @ index_path_of file)" "\<not> fault w ExpectFileChooser" "\<not> fault w (Click ''#pptx-file'')" "''#pptx-file'' \<in> set (elements w)" "''#pptx-file'' \<in> set (choosers w)" "\<not> fault w (SetFiles (pptx_path_of file))" "pptx_path_of file \<in> set (files w)" "\<not> fault w (ExpectVisible ''#slide-1'' 10000)" "visible_within w ''#slide-1'' 10000" "\<not> fault w (WaitForTimeout 1000)" "\<not> fault w (Screenshot (screenshot_path_of file) None)" "\<not> fault w BrowserClose" "fault w (Print (''Screenshot saved to '' @ screenshot_path_of file))"
    | (c14) "\<not> fault w PlaywrightStart" "\<not> fault w (Launch True)" "\<not> fault w NewPage" "\<not> fault w (Goto (''file://'' @ index_path_of file))" "url_loads w (''file://'' @ index_path_of file)" "\<not> fault w ExpectFileChooser" "\<not> fault w (Click ''#pptx-file'')" "''#pptx-file'' \<in> set (elements w)" "''#pptx-file'' \<in> set (choosers w)" "\<not> fault w (SetFiles (pptx_path_of file))" "pptx_path_of file \<in> set (files w)" "\<not> fault w (ExpectVisible ''#slide-1'' 10000)" "visible_within w ''#slide-1'' 10000" "\<not> fault w (WaitForTimeout 1000)" "\<not> fault w (Screenshot (screenshot_path_of file) None)" "\<not> fault w BrowserClose" "\<not> fault w (Print (''Screenshot saved to '' @ screenshot_path_of file))"
    by blast
  then show thesis
  proof cases
    case c1
    show thesis
      by (rule that(1)) (use c1 in \<open>simp_all add: run_simps script_events_def path_defs\<close>)
  next
    case c2
    show thesis
      by (rule that(2)) (use c2 in \<open>simp_all add: run_simps script_events_def path_defs\<close>)
  next
    case c3
    show thesis
      by (rule that(3)) (use c3 in \<open>simp_all add: run_simps script_events_def path_defs\<close>)
  next
    case c4
    show thesis
      by (rule that(4)) (use c4 in \<open>simp_all add: run_simps script_events_def path_defs\<close>)
  next
    case c5
    show thesis
      by (rule that(5)) (use c5 in \<open>simp_all add: run_simps script_events_def path_defs\<close>)
  next
    case c6
    show thesis
      by (rule that(6)) (use c6 in \<open>simp_all add: run_simps script_events_def path_defs\<close>)
  next
    case c7
    show thesis
      by (rule that(7)) (use c7 in \<open>simp_all add: run_simps script_events_def path_defs\<close>)
  next
    case c8
    show thesis
      by (rule that(8)) (use c8 in \<open>simp_all add: run_simps script_events_def path_defs\<close>)
  next
    case c9
    show thesis
      by (rule that(9)) (use c9 in \<open>simp_all add: run_simps script_events_def path_defs\<close>)
  next
    case c10
    show thesis
      by (rule that(10)) (use c10 in \<open>simp_all add: run_simps script_events_def path_defs\<close>)
  next
    case c11
    show thesis
      by (rule that(11)) (use c11 in \<open>simp_all add: run_simps script_events_def path_defs\<close>)
  next
    case c12
    show thesis
      by (rule that(12)) (use c12 in \<open>simp_all add: run_simps script_events_def path_defs\<close>)
  next
    case c13
    show thesis
      by (rule that(13)) (use c13 in \<open>simp_all add: run_simps script_events_def path_defs\<close>)
  next
    case c14
    show thesis
      by (rule that(14)) (use c14 in \<open>simp_all add: run_simps script_events_def path_defs\<close>)
  qed
qed

lemma script0_values:
  "base_dir_of script0 = ''/repo''"
  "index_path_of script0 = ''/repo/index.html''"
  "pptx_path_of script0 = ''/repo/jules-scratch/test.pptx''"
  "screenshot_path_of script0 = ''/repo/jules-scratch/verification/verification.png''"
  by (simp_all add: path_defs script0_paths)

subsection \<open>Runs in the example worlds\<close>

lemma run_w_ok:
  "run w_ok script0 =
     (Inr (),
      \<lparr>trace = script_events script0 @ [PlaywrightStop],
       browser_seen =
         [NotLaunched, NotLaunched, Running, Running, Running, Running,
          Running, Running, Running, Running, Running, Running,
          Running, Running, Running, Closed, Closed],
       browser = Closed, browsers_started = 1, browsers_ended = 1,
       location = Some ''file:///repo/index.html'', chooser_open = False,
       uploaded = [''/repo/jules-scratch/test.pptx''],
       written = [(''/repo/jules-scratch/verification/verification.png'', Viewport)],
       stdout = [''Screenshot saved to /repo/jules-scratch/verification/verification.png'']\<rparr>)"
  by (rule run_cases[of w_ok script0])
     (simp_all add: w_ok_def url_loads_def visible_within_def script0_values)

lemma run_w_hidden:
  "run w_hidden script0 =
     (Inl (ExpectVisible ''#slide-1'' 10000),
      \<lparr>trace = take 11 (script_events script0) @ [PlaywrightStop],
       browser_seen =
         [NotLaunched, NotLaunched, Running, Running, Running, Running,
          Running, Running, Running, Running, Running, Running],
       browser = Closed, browsers_started = 1, browsers_ended = 1,
       location = Some ''file:///repo/index.html'', chooser_open = False,
       uploaded = [''/repo/jules-scratch/test.pptx''],
       written = [], stdout = []\<rparr>)"
  by (rule run_cases[of w_hidden script0])
     (simp_all add: w_hidden_def w_ok_def url_loads_def visible_within_def script0_values)

lemma run_w_no_trigger:
  "run w_no_trigger script0 =
     (Inl (Click ''#pptx-file''),
      \<lparr>trace = take 9 (script_events script0) @ [PlaywrightStop],
       browser_seen =
         [NotLaunched, NotLaunched, Running, Running, Running, Running,
          Running, Running, Running, Running],
       browser = Closed, browsers_started = 1, browsers_ended = 1,
       location = Some ''file:///repo/index.html'', chooser_open = False,
       uploaded = [], written = [], stdout = []\<rparr>)"
  by (rule run_cases[of w_no_trigger script0])
     (simp_all add: w_no_trigger_def w_ok_def url_loads_def visible_within_def script0_values)

lemma run_w_no_index:
  "run w_no_index script0 =
     (Inl (Goto ''file:///repo/index.html''),
      \<lparr>trace = take 6 (script_events script0) @ [PlaywrightStop],
       browser_seen =
         [NotLaunched, NotLaunched, Running, Running, Running, Running,
          Running],
       browser = Closed, browsers_started = 1, browsers_ended = 1,
       location = None, chooser_open = False,
       uploaded = [], written = [], stdout = []\<rparr>)"
  by (rule run_cases[of w_no_index script0])
     (simp_all add: w_no_index_def w_ok_def url_loads_def visible_within_def script0_values)

lemma run_w_no_pptx:
  "run w_no_pptx script0 =
     (Inl (SetFiles ''/repo/jules-scratch/test.pptx''),
      \<lparr>trace = take 10 (script_events script0) @ [PlaywrightStop],
       browser_seen =
         [NotLaunched, NotLaunched, Running, Running, Running, Running,
          Running, Running, Running, Running, Running],
       browser = Closed, browsers_started = 1, browsers_ended = 1,
       location = Some ''file:///repo/index.html'', chooser_open = True,
       uploaded = [], written = [], stdout = []\<rparr>)"
  by (rule run_cases[of w_no_pptx script0])
     (simp_all add: w_no_pptx_def w_ok_def url_loads_def visible_within_def script0_values)


subsection \<open>The layout of the repository\<close>

text \<open>
  Three applications of \<open>dirname\<close> to the location of the script lead from
  \<open>root/jules-scratch/verification/verify_styles.py\<close> to \<open>root\<close>.
\<close>

lemma dirname_child:
  assumes "r \<noteq> []" and "last r \<noteq> CHR ''/''" and "CHR ''/'' \<notin> set name"
  shows "dirname (r @ ''/'' @ name) = r"
proof -
  obtain ys y where r: "r = ys @ [y]" using assms(1) by (cases r rule: rev_cases) auto
  have y: "y \<noteq> CHR ''/''" using assms(2) r by simp
  have "dropWhile (\<lambda>c. c \<noteq> CHR ''/'') (rev name @ CHR ''/'' # rev r) = CHR ''/'' # rev r"
    using assms(3) by (subst dropWhile_append2) auto
  then show ?thesis using y r by (simp add: dirname_def rstrip_sep_def)
qed

lemma base_dir_layout:
  assumes "root \<noteq> []" and "last root \<noteq> CHR ''/''"
  shows "base_dir_of (root @ ''/jules-scratch/verification/verify_styles.py'') = root"
proof -
  have a: "dirname (root @ ''/jules-scratch/verification/verify_styles.py'')
             = root @ ''/jules-scratch/verification''"
    using dirname_child [of "root @ ''/jules-scratch/verification''" "''verify_styles.py''"]
    by simp
  have b: "dirname (root @ ''/jules-scratch/verification'') = root @ ''/jules-scratch''"
    using dirname_child [of "root @ ''/jules-scratch''" "''verification''"] by simp
  have c: "dirname (root @ ''/jules-scratch'') = root"
    using dirname_child [of root "''jules-scratch''"] assms by simp
  show ?thesis by (simp only: base_dir_of_def a b c)
qed

subsection \<open>Release of the browser session\<close>

text \<open>
  C1. Whatever happens in a run (success, the visibility timeout, or an exception raised by
  any call), the browser session is closed exactly once before the run exits: no browser
  process is left running, every process that was started has been ended once (at most one
  is started, and exactly one whenever the launch returned), the \<open>sync_playwright\<close>
  scope is left exactly once and as the last thing the run does whenever it was entered,
  and \<open>browser.close()\<close> is never called twice.
\<close>

theorem session_closed_exactly_once:
  "browser (snd (run w file)) \<noteq> Running
   \<and> browsers_ended (snd (run w file)) = browsers_started (snd (run w file))
   \<and> browsers_started (snd (run w file)) =
       (if fault w PlaywrightStart \<or> fault w (Launch True) then 0 else 1)
   \<and> count_list (trace (snd (run w file))) PlaywrightStop =
       (if fault w PlaywrightStart then 0 else 1)
   \<and> last (trace (snd (run w file))) =
       (if fault w PlaywrightStart then PlaywrightStart else PlaywrightStop)
   \<and> count_list (trace (snd (run w file))) BrowserClose \<le> 1"
  by (rule run_cases[of w "file"]) (simp_all add: script_events_def)

theorem session_closed_exactly_once_witness:
  "browser (snd (run w_ok script0)) \<noteq> Running
   \<and> browsers_started (snd (run w_ok script0)) = 1
   \<and> browsers_ended (snd (run w_ok script0)) = 1
   \<and> count_list (trace (snd (run w_ok script0))) PlaywrightStop = 1"
  using session_closed_exactly_once [of w_ok script0] by (simp add: w_ok_def)

subsection \<open>The screenshot file\<close>

text \<open>
  C2, as amended. A successful run produces exactly one screenshot file, and its path is
  \<open>join(root, 'jules-scratch', 'verification', 'verification.png')\<close>, where \<open>root\<close> is
  the base directory derived from the location of the script.
\<close>

theorem screenshot_location:
  "fst (run w file) = Inr () \<Longrightarrow>
     map fst (written (snd (run w file))) = [screenshot_path_of file]"
  by (rule run_cases[of w "file"]) simp_all

theorem screenshot_location_witness:
  "fst (run w_ok script0) = Inr ()
   \<and> map fst (written (snd (run w_ok script0))) =
       [''/repo/jules-scratch/verification/verification.png'']"
  using screenshot_location [of w_ok script0] by (simp add: run_w_ok script0_values)

text \<open>
  C2, as stated, puts the file at \<open>root/verification/verification.png\<close>. In the example
  repository the successful run writes its one file elsewhere.
\<close>

theorem screenshot_location_counterexample:
  "fst (run w_ok script0) = Inr ()
   \<and> map fst (written (snd (run w_ok script0))) \<noteq>
       [base_dir_of script0 @ ''/verification/verification.png'']"
  by (simp add: run_w_ok script0_values)

text \<open>
  C6, as amended. In a successful run the screenshot is taken with the library's default
  extent: the call passes no \<open>full_page\<close> argument, and the one file written holds the
  visible viewport.
\<close>

theorem screenshot_extent:
  "fst (run w file) = Inr () \<Longrightarrow>
     map snd (written (snd (run w file))) = [Viewport]
     \<and> Screenshot (screenshot_path_of file) None \<in> set (trace (snd (run w file)))"
  by (rule run_cases[of w "file"]) (simp_all add: script_events_def)

theorem screenshot_extent_witness:
  "fst (run w_ok script0) = Inr ()
   \<and> map snd (written (snd (run w_ok script0))) = [Viewport]"
  using screenshot_extent [of w_ok script0] by (simp add: run_w_ok)

text \<open>
  C6, as stated, says the screenshot is a full-page one. The successful run in the example
  world writes a screenshot that is not.
\<close>

theorem full_page_counterexample:
  "fst (run w_ok script0) = Inr ()
   \<and> map snd (written (snd (run w_ok script0))) \<noteq> [FullPage]"
  by (simp add: run_w_ok)

subsection \<open>Path resolution\<close>

text \<open>
  C3, as amended. The base directory is obtained by three applications of \<open>dirname\<close>
  to the location of the script, which for a script at
  \<open>root/jules-scratch/verification/verify_styles.py\<close> is \<open>root\<close>. No check is made that
  the entry point exists there: when the driver starts, the browser launches and a page
  opens, and the base directory has no \<open>index.html\<close>, the run computes the two paths,
  calls \<open>page.goto\<close>, and it is that navigation which raises, with one browser process
  started by then.
\<close>

theorem path_resolution:
  "(root \<noteq> [] \<and> last root \<noteq> CHR ''/'' \<longrightarrow>
      base_dir_of (root @ ''/jules-scratch/verification/verify_styles.py'') = root)
   \<and> (\<not> fault w PlaywrightStart \<and> \<not> fault w (Launch True) \<and> \<not> fault w NewPage
        \<and> index_path_of file \<notin> set (files w) \<longrightarrow>
      fst (run w file) = Inl (Goto (''file://'' @ index_path_of file))
      \<and> trace (snd (run w file)) =
          [PlaywrightStart, Launch True, NewPage,
           Assign ''base_dir'' (dirname (dirname (dirname file))),
           Assign ''index_path'' (join (dirname (dirname (dirname file))) [''index.html'']),
           Goto (''file://'' @ join (dirname (dirname (dirname file))) [''index.html'']),
           PlaywrightStop]
      \<and> browsers_started (snd (run w file)) = 1)"
proof -
  have no_load: "index_path_of file \<notin> set (files w) \<Longrightarrow>
                   \<not> url_loads w (''file://'' @ index_path_of file)"
    using url_loads_file [of w "index_path_of file"] by blast
  have "\<not> fault w PlaywrightStart \<Longrightarrow> \<not> fault w (Launch True) \<Longrightarrow> \<not> fault w NewPage \<Longrightarrow>
        \<not> url_loads w (''file://'' @ index_path_of file) \<Longrightarrow>
      fst (run w file) = Inl (Goto (''file://'' @ index_path_of file))
      \<and> trace (snd (run w file)) =
          [PlaywrightStart, Launch True, NewPage,
           Assign ''base_dir'' (dirname (dirname (dirname file))),
           Assign ''index_path'' (join (dirname (dirname (dirname file))) [''index.html'']),
           Goto (''file://'' @ join (dirname (dirname (dirname file))) [''index.html'']),
           PlaywrightStop]
      \<and> browsers_started (snd (run w file)) = 1"
    by (rule run_cases[of w "file"]) (simp_all add: script_events_def path_defs)
  with no_load base_dir_layout show ?thesis by blast
qed

theorem path_resolution_witness:
  "base_dir_of (''/repo'' @ ''/jules-scratch/verification/verify_styles.py'') = ''/repo''
   \<and> index_path_of script0 \<notin> set (files w_no_index)
   \<and> fst (run w_no_index script0) = Inl (Goto (''file://'' @ index_path_of script0))
   \<and> browsers_started (snd (run w_no_index script0)) = 1"
proof -
  have sound: "\<not> fault w_no_index PlaywrightStart \<and> \<not> fault w_no_index (Launch True)
               \<and> \<not> fault w_no_index NewPage"
    by (simp add: w_no_index_def w_ok_def)
  have absent: "index_path_of script0 \<notin> set (files w_no_index)"
    by (simp add: w_no_index_def script0_values)
  have root: "''/repo'' \<noteq> [] \<and> last ''/repo'' \<noteq> CHR ''/''" by simp
  from path_resolution [of "''/repo''" w_no_index script0] sound absent root
  show ?thesis by blast
qed

text \<open>
  C3, as stated, has the run fail in path resolution before any browser work. In the
  example world without \<open>index.html\<close> the browser is launched and a page is opened before
  any path is computed, and the exception comes from the navigation call.
\<close>

theorem path_resolution_counterexample:
  "index_path_of script0 \<notin> set (files w_no_index)
   \<and> fst (run w_no_index script0) = Inl (Goto ''file:///repo/index.html'')
   \<and> trace (snd (run w_no_index script0)) =
       [PlaywrightStart, Launch True, NewPage,
        Assign ''base_dir'' ''/repo'', Assign ''index_path'' ''/repo/index.html'',
        Goto ''file:///repo/index.html'', PlaywrightStop]"
proof -
  have "index_path_of script0 \<notin> set (files w_no_index)"
    by (simp add: w_no_index_def script0_values)
  then show ?thesis
    by (simp add: run_w_no_index script_events_def script0_values)
qed

subsection \<open>Failures of the upload and of the wait for the first slide\<close>

text \<open>
  C4. If the element \<open>#slide-1\<close> does not become visible within 10000 milliseconds, the
  run fails and writes no screenshot file; and if the upload had succeeded, the exception is
  the one raised by the visibility expectation (what the specification calls
  \<open>RenderTimeoutError\<close>).
\<close>

theorem render_timeout:
  assumes "\<not> visible_within w ''#slide-1'' 10000"
  shows "fst (run w file) \<noteq> Inr ()
     \<and> written (snd (run w file)) = []
     \<and> (uploaded (snd (run w file)) \<noteq> [] \<longrightarrow>
          fst (run w file) = Inl (ExpectVisible ''#slide-1'' 10000))"
  by (rule run_cases[of w "file"]) (use assms in simp_all)

theorem render_timeout_witness:
  "\<not> visible_within w_hidden ''#slide-1'' 10000
   \<and> uploaded (snd (run w_hidden script0)) \<noteq> []
   \<and> fst (run w_hidden script0) = Inl (ExpectVisible ''#slide-1'' 10000)
   \<and> written (snd (run w_hidden script0)) = []"
proof -
  have hidden: "\<not> visible_within w_hidden ''#slide-1'' 10000"
    by (simp add: visible_within_def w_hidden_def w_ok_def)
  have up: "uploaded (snd (run w_hidden script0)) \<noteq> []"
    by (simp add: run_w_hidden)
  from render_timeout [OF hidden, of script0] hidden up show ?thesis by simp
qed

text \<open>
  C5. If no element matches \<open>#pptx-file\<close>, the run fails, uploads nothing and writes no
  screenshot file; and if the page had loaded, the exception is raised inside the upload
  block (what the specification calls \<open>UploadError\<close>): by the click on the missing element,
  unless entering the file-chooser block has itself already failed.
\<close>

theorem missing_trigger:
  assumes "''#pptx-file'' \<notin> set (elements w)"
  shows "fst (run w file) \<noteq> Inr ()
     \<and> written (snd (run w file)) = []
     \<and> uploaded (snd (run w file)) = []
     \<and> (location (snd (run w file)) \<noteq> None \<longrightarrow>
          fst (run w file) =
            Inl (if fault w ExpectFileChooser then ExpectFileChooser else Click ''#pptx-file''))"
  by (rule run_cases[of w "file"]) (use assms in simp_all)

theorem missing_trigger_witness:
  "''#pptx-file'' \<notin> set (elements w_no_trigger)
   \<and> location (snd (run w_no_trigger script0)) \<noteq> None
   \<and> fst (run w_no_trigger script0) = Inl (Click ''#pptx-file'')
   \<and> written (snd (run w_no_trigger script0)) = []"
proof -
  have absent: "''#pptx-file'' \<notin> set (elements w_no_trigger)"
    by (simp add: w_no_trigger_def)
  have loaded: "location (snd (run w_no_trigger script0)) \<noteq> None"
    by (simp add: run_w_no_trigger)
  have sound: "\<not> fault w_no_trigger ExpectFileChooser"
    by (simp add: w_no_trigger_def w_ok_def)
  from missing_trigger [OF absent, of script0] absent loaded sound show ?thesis by simp
qed

subsection \<open>When the paths are computed\<close>

text \<open>
  C7, as amended. Each path variable is bound at most once in a run, in source order and
  to a value that depends on the location of the script only, and all of them are bound in
  a successful run. They are bound where they are first needed, not up front. What precedes
  the first binding is the entry of the scope, the launch of the browser and the opening of
  the page; the path of the entry point is bound directly after the base directory; the
  path of the sample file is bound directly after the navigation, which has succeeded; and
  the path of the screenshot is bound directly after the settle delay
  \<open>wait_for_timeout(1000)\<close>, which itself directly follows the visibility expectation,
  with the upload done.
\<close>

theorem paths_computed_once:
  "prefix (filter is_assign (trace (snd (run w file)))) (path_assignments file)
   \<and> (fst (run w file) = Inr () \<longrightarrow>
         filter is_assign (trace (snd (run w file))) = path_assignments file)
   \<and> (filter is_assign (trace (snd (run w file))) \<noteq> [] \<longrightarrow>
         takeWhile (\<lambda>e. \<not> is_assign e) (trace (snd (run w file))) =
           [PlaywrightStart, Launch True, NewPage])
   \<and> (Assign ''index_path'' (index_path_of file) \<in> set (trace (snd (run w file))) \<longrightarrow>
         takeWhile (\<lambda>e. e \<noteq> Assign ''index_path'' (index_path_of file))
             (trace (snd (run w file))) =
           [PlaywrightStart, Launch True, NewPage, Assign ''base_dir'' (base_dir_of file)])
   \<and> (Assign ''pptx_path'' (pptx_path_of file) \<in> set (trace (snd (run w file))) \<longrightarrow>
         location (snd (run w file)) = Some (''file://'' @ index_path_of file)
         \<and> takeWhile (\<lambda>e. e \<noteq> Assign ''pptx_path'' (pptx_path_of file))
             (trace (snd (run w file))) =
           take 5 (script_events file) @ [Goto (''file://'' @ index_path_of file)])
   \<and> (Assign ''screenshot_path'' (screenshot_path_of file) \<in> set (trace (snd (run w file))) \<longrightarrow>
         uploaded (snd (run w file)) = [pptx_path_of file]
         \<and> WaitForTimeout 1000 \<in> set (trace (snd (run w file)))
         \<and> takeWhile (\<lambda>e. e \<noteq> Assign ''screenshot_path'' (screenshot_path_of file))
             (trace (snd (run w file))) =
           take 10 (script_events file) @
           [ExpectVisible ''#slide-1'' 10000, WaitForTimeout 1000])"
  by (rule run_cases[of w "file"]) (simp_all add: script_events_def path_assignments_def)

theorem paths_computed_once_witness:
  "filter is_assign (trace (snd (run w_ok script0))) =
     [Assign ''base_dir'' ''/repo'',
      Assign ''index_path'' ''/repo/index.html'',
      Assign ''pptx_path'' ''/repo/jules-scratch/test.pptx'',
      Assign ''screenshot_path'' ''/repo/jules-scratch/verification/verification.png'']
   \<and> takeWhile (\<lambda>e. e \<noteq> Assign ''screenshot_path'' (screenshot_path_of script0))
         (trace (snd (run w_ok script0))) =
       take 10 (script_events script0) @
       [ExpectVisible ''#slide-1'' 10000, WaitForTimeout 1000]"
proof -
  note facts = paths_computed_once [of w_ok script0]
  have ok: "fst (run w_ok script0) = Inr ()" by (simp add: run_w_ok)
  have bound: "Assign ''screenshot_path'' (screenshot_path_of script0)
          \<in> set (trace (snd (run w_ok script0)))"
    by (simp add: run_w_ok script_events_def)
  have all: "filter is_assign (trace (snd (run w_ok script0))) = path_assignments script0"
    by (rule facts [THEN conjunct2, THEN conjunct1, THEN mp, OF ok])
  have shot: "takeWhile (\<lambda>e. e \<noteq> Assign ''screenshot_path'' (screenshot_path_of script0))
         (trace (snd (run w_ok script0))) =
       take 10 (script_events script0) @
       [ExpectVisible ''#slide-1'' 10000, WaitForTimeout 1000]"
    by (rule facts [THEN conjunct2, THEN conjunct2, THEN conjunct2, THEN conjunct2,
          THEN conjunct2, THEN mp, OF bound, THEN conjunct2, THEN conjunct2])
  have concrete: "path_assignments script0 =
     [Assign ''base_dir'' ''/repo'',
      Assign ''index_path'' ''/repo/index.html'',
      Assign ''pptx_path'' ''/repo/jules-scratch/test.pptx'',
      Assign ''screenshot_path'' ''/repo/jules-scratch/verification/verification.png'']"
    by (simp add: path_assignments_def script0_values)
  from all concrete shot show ?thesis by (simp only: simp_thms)
qed

text \<open>
  C7, as stated, has all paths computed before the first browser phase. In the successful
  run of the example world the launch and the new page come before every binding, and in
  the world without \<open>index.html\<close> the run ends before the last two paths are computed.
\<close>

theorem paths_before_phases_counterexample:
  "trace (snd (run w_ok script0)) =
     [PlaywrightStart, Launch True, NewPage,
      Assign ''base_dir'' ''/repo'',
      Assign ''index_path'' ''/repo/index.html'',
      Goto ''file:///repo/index.html'',
      Assign ''pptx_path'' ''/repo/jules-scratch/test.pptx'',
      ExpectFileChooser, Click ''#pptx-file'',
      SetFiles ''/repo/jules-scratch/test.pptx'',
      ExpectVisible ''#slide-1'' 10000, WaitForTimeout 1000,
      Assign ''screenshot_path'' ''/repo/jules-scratch/verification/verification.png'',
      Screenshot ''/repo/jules-scratch/verification/verification.png'' None,
      BrowserClose,
      Print ''Screenshot saved to /repo/jules-scratch/verification/verification.png'',
      PlaywrightStop]
   \<and> filter is_assign (take 3 (trace (snd (run w_ok script0)))) = []
   \<and> filter is_assign (trace (snd (run w_no_index script0))) \<noteq>
       path_assignments script0"
  by (simp add: run_w_ok run_w_no_index script_events_def path_assignments_def script0_values)

subsection \<open>The order of the phases and the settle delay\<close>

text \<open>
  C8. The events of every run are an initial segment of the statements of the script in
  source order (launch, navigation, upload, wait for the first slide, settle delay, capture,
  close of the browser, message), followed by the exit of the scope whenever it was
  entered; and a screenshot call is always directly preceded by the successful visibility
  expectation on \<open>#slide-1\<close>, the wait of 1000 milliseconds and the binding of its path.
\<close>

theorem phase_order:
  "(\<exists>n. trace (snd (run w file)) =
          take n (script_events file) @ (if fault w PlaywrightStart then [] else [PlaywrightStop]))
   \<and> (\<forall>p fp. Screenshot p fp \<in> set (trace (snd (run w file))) \<longrightarrow>
         (\<exists>pre post. trace (snd (run w file)) =
            pre @ [ExpectVisible ''#slide-1'' 10000, WaitForTimeout 1000,
                   Assign ''screenshot_path'' p, Screenshot p fp] @ post))"
proof -
  have "trace (snd (run w file)) \<in>
          (\<lambda>n. take n (script_events file) @ (if fault w PlaywrightStart then [] else [PlaywrightStop]))
            ` {1, 2, 3, 6, 8, 9, 10, 11, 12, 14, 15, 16}"
    by (rule run_cases[of w "file"]) (simp_all add: script_events_def)
  then have shape: "\<exists>n. trace (snd (run w file)) =
          take n (script_events file) @ (if fault w PlaywrightStart then [] else [PlaywrightStop])"
    by blast
  have "\<forall>p fp. Screenshot p fp \<in> set (trace (snd (run w file))) \<longrightarrow>
          trace (snd (run w file)) =
            take 10 (script_events file) @
            [ExpectVisible ''#slide-1'' 10000, WaitForTimeout 1000,
             Assign ''screenshot_path'' p, Screenshot p fp] @
            drop 14 (trace (snd (run w file)))"
    by (rule run_cases[of w "file"]) (simp_all add: script_events_def)
  then have settle: "\<forall>p fp. Screenshot p fp \<in> set (trace (snd (run w file))) \<longrightarrow>
         (\<exists>pre post. trace (snd (run w file)) =
            pre @ [ExpectVisible ''#slide-1'' 10000, WaitForTimeout 1000,
                   Assign ''screenshot_path'' p, Screenshot p fp] @ post)"
    by blast
  from shape settle show ?thesis by (rule conjI)
qed

theorem phase_order_witness:
  "Screenshot (screenshot_path_of script0) None \<in> set (trace (snd (run w_ok script0)))
   \<and> (\<exists>pre post. trace (snd (run w_ok script0)) =
          pre @ [ExpectVisible ''#slide-1'' 10000, WaitForTimeout 1000,
                 Assign ''screenshot_path'' (screenshot_path_of script0),
                 Screenshot (screenshot_path_of script0) None] @ post)"
proof -
  have shot: "Screenshot (screenshot_path_of script0) None \<in> set (trace (snd (run w_ok script0)))"
    by (simp add: run_w_ok script_events_def)
  from phase_order [of w_ok script0] shot show ?thesis by blast
qed

subsection \<open>The sample file is not checked\<close>

text \<open>
  C9. Nothing tests whether the sample file exists: whenever the driver, the launch, the
  page, the navigation and the click that opens the chooser succeed (conditions that do not
  mention the sample file), the path \<open>join(root, 'jules-scratch', 'test.pptx')\<close> is handed
  to the file chooser; and when the file is missing, the run fails at exactly that call, in
  the upload, after all the earlier statements have run.
\<close>

theorem no_input_file_check:
  assumes "\<not> fault w PlaywrightStart" and "\<not> fault w (Launch True)" and "\<not> fault w NewPage"
    and "\<not> fault w (Goto (''file://'' @ index_path_of file))"
    and "index_path_of file \<in> set (files w)"
    and "\<not> fault w ExpectFileChooser" and "\<not> fault w (Click ''#pptx-file'')"
    and "''#pptx-file'' \<in> set (elements w)" and "''#pptx-file'' \<in> set (choosers w)"
  shows "SetFiles (pptx_path_of file) \<in> set (trace (snd (run w file)))
     \<and> (pptx_path_of file \<notin> set (files w) \<longrightarrow>
          fst (run w file) = Inl (SetFiles (pptx_path_of file))
          \<and> trace (snd (run w file)) = take 10 (script_events file) @ [PlaywrightStop])"
proof -
  have loads: "url_loads w (''file://'' @ index_path_of file)"
    using assms(5) url_loads_file [of w "index_path_of file"] by blast
  show ?thesis
    by (rule run_cases[of w "file"]) (use assms loads in \<open>simp_all add: script_events_def\<close>)
qed

theorem no_input_file_check_witness:
  "pptx_path_of script0 \<notin> set (files w_no_pptx)
   \<and> SetFiles (pptx_path_of script0) \<in> set (trace (snd (run w_no_pptx script0)))
   \<and> fst (run w_no_pptx script0) = Inl (SetFiles (pptx_path_of script0))"
proof -
  have missing: "pptx_path_of script0 \<notin> set (files w_no_pptx)"
    by (simp add: w_no_pptx_def script0_values)
  have rest: "\<not> fault w_no_pptx PlaywrightStart" "\<not> fault w_no_pptx (Launch True)"
    "\<not> fault w_no_pptx NewPage"
    "\<not> fault w_no_pptx (Goto (''file://'' @ index_path_of script0))"
    "index_path_of script0 \<in> set (files w_no_pptx)"
    "\<not> fault w_no_pptx ExpectFileChooser" "\<not> fault w_no_pptx (Click ''#pptx-file'')"
    "''#pptx-file'' \<in> set (elements w_no_pptx)" "''#pptx-file'' \<in> set (choosers w_no_pptx)"
    by (simp_all add: w_no_pptx_def w_ok_def script0_values)
  from no_input_file_check [OF rest] missing show ?thesis by blast
qed

subsection \<open>The message on the console\<close>



end
